theory Spec2Isabelle
  imports Main "HOL-Library.Word" "HOL-Library.Signed_Division"
begin

unbundle bit_operations_syntax

section \<open>Data model of ctictactoe.c\<close>

text \<open>
  \<^verbatim>\<open>struct Vec2 { int32_t x; int32_t y; }\<close> with the constructor macro \<^verbatim>\<open>vec2(x, y)\<close>.
  The coordinates are modelled as unbounded integers: every coordinate the game engine
  computes stays in \<open>-1 .. 2\<close>, so the 32-bit range is never left.
\<close>

datatype Vec2 = vec2 (vec_x: int) (vec_y: int)

text \<open>\<^verbatim>\<open>enum Move\<close>, \<^verbatim>\<open>enum Actor\<close>, \<^verbatim>\<open>enum EndGame\<close> and \<^verbatim>\<open>enum GameInput\<close>.\<close>

datatype Move = FREE_MOVE | X_MOVE | O_MOVE

datatype Actor = NULL_ACTOR | X_ACTOR | O_ACTOR

datatype EndGame = RUNNING | GAME_DRAW | X_VICTORY | O_VICTORY

datatype GameInput = QUIT_INPUT | UP_INPUT | DOWN_INPUT | LEFT_INPUT | RIGHT_INPUT | MOVE_INPUT

text \<open>The macro \<^verbatim>\<open>actor_to_move(a)\<close> casts the enum value: the numbering of both enums agrees.\<close>

fun actor_to_move :: "Actor \<Rightarrow> Move" where
  "actor_to_move NULL_ACTOR = FREE_MOVE"
| "actor_to_move X_ACTOR = X_MOVE"
| "actor_to_move O_ACTOR = O_MOVE"

text \<open>The macro \<^verbatim>\<open>opponent_actor(a)\<close>.\<close>

definition opponent_actor :: "Actor \<Rightarrow> Actor" where
  "opponent_actor a = (if a = NULL_ACTOR then NULL_ACTOR else (if a = X_ACTOR then O_ACTOR else X_ACTOR))"

text \<open>
  \<^verbatim>\<open>typedef enum Move GameBoard[3][3]\<close>: a list of three rows of three cells, read and
  written as \<^verbatim>\<open>board[pos.y][pos.x]\<close>. The C program never indexes the board outside
  \<open>0 .. 2\<close> on a state it can reach; the theorems below carry that as a hypothesis
  wherever a cell is addressed.
\<close>

type_synonym GameBoard = "Move list list"

definition set_game_board_cell :: "GameBoard \<Rightarrow> Vec2 \<Rightarrow> Move \<Rightarrow> GameBoard" where
  "set_game_board_cell board pos move =
     board[nat (vec_y pos) := (board ! nat (vec_y pos))[nat (vec_x pos) := move]]"

definition game_board_cell :: "GameBoard \<Rightarrow> Vec2 \<Rightarrow> Move" where
  "game_board_cell board pos = board ! nat (vec_y pos) ! nat (vec_x pos)"

text \<open>\<^verbatim>\<open>typedef uint16_t MovePrint\<close>.\<close>

type_synonym MovePrint = "16 word"

text \<open>The table \<^verbatim>\<open>match_move_prints\<close>; the source writes the entries in octal:
  0007, 0070, 0700, 0111, 0222, 0444, 0421, 0124.\<close>

definition match_move_prints :: "MovePrint list" where
  "match_move_prints = [7, 56, 448, 73, 146, 292, 273, 84]"

text \<open>\<^verbatim>\<open>uint16_t mask = (1 << ((pos.y * 3) + pos.x))\<close>.\<close>

definition pos_mask :: "Vec2 \<Rightarrow> MovePrint" where
  "pos_mask pos = push_bit (nat (vec_y pos * 3 + vec_x pos)) 1"

definition edit_move_print :: "MovePrint \<Rightarrow> Vec2 \<Rightarrow> bool \<Rightarrow> MovePrint" where
  "edit_move_print print pos b =
     (if b then print OR pos_mask pos else print AND NOT (pos_mask pos))"

definition move_print_inspec :: "MovePrint \<Rightarrow> Vec2 \<Rightarrow> bool" where
  "move_print_inspec print pos \<longleftrightarrow> (print AND pos_mask pos) > 0"

record MovePrintTriplet =
  free_print :: MovePrint
  x_print :: MovePrint
  o_print :: MovePrint

text \<open>One iteration of the double loop of \<^verbatim>\<open>get_move_print_triplet\<close>: the \<^verbatim>\<open>switch\<close>
  selects the print and \<^verbatim>\<open>edit_move_print\<close> sets the bit of the cell.\<close>

definition triplet_step :: "GameBoard \<Rightarrow> Vec2 \<Rightarrow> MovePrintTriplet \<Rightarrow> MovePrintTriplet" where
  "triplet_step board pos t =
     (case game_board_cell board pos of
        FREE_MOVE \<Rightarrow> t\<lparr>free_print := edit_move_print (free_print t) pos True\<rparr>
      | X_MOVE \<Rightarrow> t\<lparr>x_print := edit_move_print (x_print t) pos True\<rparr>
      | O_MOVE \<Rightarrow> t\<lparr>o_print := edit_move_print (o_print t) pos True\<rparr>)"

text \<open>The cells in the order the loops visit them: \<open>y\<close> outside, \<open>x\<close> inside.\<close>

definition board_positions :: "Vec2 list" where
  "board_positions = concat (map (\<lambda>y. map (\<lambda>x. vec2 x y) [0, 1, 2]) [0, 1, 2])"

definition get_move_print_triplet :: "GameBoard \<Rightarrow> MovePrintTriplet" where
  "get_move_print_triplet board =
     fold (triplet_step board) board_positions
       \<lparr>free_print = 0, x_print = 0, o_print = 0\<rparr>"

text \<open>\<^verbatim>\<open>move_print_count\<close>: the counter is a \<^verbatim>\<open>uint8_t\<close>.\<close>

definition move_print_count :: "MovePrint \<Rightarrow> 8 word" where
  "move_print_count print = fold (\<lambda>i count. count + ucast (drop_bit i print AND 1)) [0..<9] 0"

text \<open>
  \<^verbatim>\<open>move_print_coords\<close> writes the coordinates of the set bits, in ascending bit order,
  one after the other into the array it is given. The model returns them as a list; what
  the caller's array holds afterwards is \<open>coords_array\<close> (below).
\<close>

definition move_print_coords :: "MovePrint \<Rightarrow> Vec2 list" where
  "move_print_coords print =
     map (\<lambda>i. vec2 (int i mod 3) (int i div 3))
       (filter (\<lambda>i. drop_bit i print AND 1 \<noteq> 0) [0..<9])"

definition test_move_print_purity :: "MovePrint \<Rightarrow> MovePrint \<Rightarrow> bool" where
  "test_move_print_purity testing opponent \<longleftrightarrow> (testing OR opponent) = testing"

definition test_move_print_winner_line :: "MovePrint \<Rightarrow> nat \<Rightarrow> MovePrint" where
  "test_move_print_winner_line testing match_index =
     (if (testing AND match_move_prints ! match_index) = match_move_prints ! match_index
      then match_move_prints ! match_index else 0)"

definition test_move_print_winner :: "MovePrint \<Rightarrow> MovePrint" where
  "test_move_print_winner testing =
     fold (\<lambda>i result. result OR test_move_print_winner_line testing i) [0..<8] 0"

text \<open>The wording of the specification: the patterns fully contained in the mask, ORed
  together.\<close>

definition contained_patterns :: "MovePrint \<Rightarrow> MovePrint list" where
  "contained_patterns m = filter (\<lambda>p. m AND p = p) match_move_prints"

definition winningLines_spec :: "MovePrint \<Rightarrow> MovePrint" where
  "winningLines_spec m = foldr (OR) (contained_patterns m) 0"

text \<open>
  \<^verbatim>\<open>calc_min_moves\<close>: the operands are promoted to \<^verbatim>\<open>int\<close>, each result is stored in
  a \<^verbatim>\<open>uint8_t\<close>, that is, reduced modulo 256.
\<close>

definition calc_min_moves :: "bool \<Rightarrow> 8 word \<Rightarrow> 8 word" where
  "calc_min_moves starter mv =
     (let moves_left :: 8 word =
            (if starter then word_of_int (5 - (uint mv - (uint mv div 2)))
             else word_of_int (4 - (uint mv div 2)));
          min_moves :: 8 word = word_of_int (3 - uint moves_left)
      in min_moves)"


section \<open>Game state and input processing\<close>

text \<open>\<^verbatim>\<open>struct GameState\<close>; \<open>moves\<close> is a \<^verbatim>\<open>uint8_t\<close>.\<close>

record GameState =
  board :: GameBoard
  selection :: Vec2
  turn :: Actor
  moves :: "8 word"
  endgame :: EndGame

text \<open>
  \<^verbatim>\<open>process_game_input\<close>. The input comes from the input source's executor (keyboard or
  AI), here it is the argument. The result pairs the returned flag (true only on
  \<^verbatim>\<open>QUIT_INPUT\<close>) with the state after the call. C's \<^verbatim>\<open>%\<close> truncates towards zero:
  \<open>smod\<close>.
\<close>

definition process_game_input :: "GameInput \<Rightarrow> GameState \<Rightarrow> bool \<times> GameState" where
  "process_game_input inp state =
     (case inp of
        QUIT_INPUT \<Rightarrow> (True, state)
      | UP_INPUT \<Rightarrow>
          (False, state\<lparr>selection :=
                     vec2 (vec_x (selection state)) (((vec_y (selection state) + 3) - 1) smod 3)\<rparr>)
      | DOWN_INPUT \<Rightarrow>
          (False, state\<lparr>selection :=
                     vec2 (vec_x (selection state)) ((vec_y (selection state) + 1) smod 3)\<rparr>)
      | LEFT_INPUT \<Rightarrow>
          (False, state\<lparr>selection :=
                     vec2 (((vec_x (selection state) + 3) - 1) smod 3) (vec_y (selection state))\<rparr>)
      | RIGHT_INPUT \<Rightarrow>
          (False, state\<lparr>selection :=
                     vec2 ((vec_x (selection state) + 1) smod 3) (vec_y (selection state))\<rparr>)
      | MOVE_INPUT \<Rightarrow>
          (let sel = selection state;
               move_in_cell = game_board_cell (board state) sel
           in if move_in_cell = FREE_MOVE
              then (False, state\<lparr>board := set_game_board_cell (board state) sel
                                             (actor_to_move (turn state)),
                                  turn := opponent_actor (turn state),
                                  moves := moves state + 1\<rparr>)
              else (False, state)))"

text \<open>
  What a caller's zero-initialised array of \<open>n\<close> coordinates holds after
  \<^verbatim>\<open>move_print_coords\<close> has written into it. (With more than \<open>n\<close> set bits the C
  function writes past the array; none of the states considered below gets there.)
\<close>

definition coords_array :: "nat \<Rightarrow> Vec2 list \<Rightarrow> Vec2 list" where
  "coords_array n cs = take n (cs @ replicate n (vec2 0 0))"

section \<open>Win and forced-draw detection\<close>

text \<open>The indices into \<^verbatim>\<open>match_move_prints\<close> that build \<^verbatim>\<open>x_lines\<close> and \<^verbatim>\<open>o_lines\<close>
  for one free cell: \<^verbatim>\<open>cell_pos.y\<close>, \<^verbatim>\<open>cell_pos.x + 3\<close>, 6 and 7.\<close>

definition cell_lines :: "Vec2 \<Rightarrow> nat list" where
  "cell_lines cell_pos = [nat (vec_y cell_pos), nat (vec_x cell_pos + 3), 6, 7]"

text \<open>The body of the inner loop of \<^verbatim>\<open>process_game_state\<close>: \<^verbatim>\<open>can_x_win || can_o_win\<close>.\<close>

definition can_win_line :: "MovePrint \<Rightarrow> MovePrint \<Rightarrow> 8 word \<Rightarrow> 8 word \<Rightarrow> nat \<Rightarrow> bool" where
  "can_win_line x_moves o_moves x_min_moves o_min_moves idx =
     (let x_line = x_moves AND match_move_prints ! idx;
          o_line = o_moves AND match_move_prints ! idx;
          can_x_win = (test_move_print_purity x_line o_line
                        \<and> move_print_count x_line \<ge> x_min_moves);
          can_o_win = (test_move_print_purity o_line x_line
                        \<and> move_print_count o_line \<ge> o_min_moves)
      in can_x_win \<or> can_o_win)"

text \<open>The two nested loops with their \<^verbatim>\<open>goto KEEP_GAME_RUNNING\<close>: true when the jump is
  taken, false when both loops run to their end.\<close>

definition keep_game_running ::
    "MovePrint \<Rightarrow> MovePrint \<Rightarrow> 8 word \<Rightarrow> 8 word \<Rightarrow> Vec2 list \<Rightarrow> bool" where
  "keep_game_running x_moves o_moves x_min_moves o_min_moves cells =
     list_ex (\<lambda>cell_pos.
        list_ex (can_win_line x_moves o_moves x_min_moves o_min_moves) (cell_lines cell_pos))
       cells"

text \<open>
  \<^verbatim>\<open>process_game_state\<close>. The function-local \<^verbatim>\<open>static enum Actor game_starter\<close> outlives
  the call, so it is an argument and a result.
\<close>

definition process_game_state :: "Actor \<Rightarrow> GameState \<Rightarrow> Actor \<times> GameState" where
  "process_game_state game_starter state =
     (if moves state = 0 then (turn state, state)
      else if moves state < 5 then (game_starter, state)
      else
        let separated_state = get_move_print_triplet (board state);
            x_moves = x_print separated_state;
            o_moves = o_print separated_state;
            free_moves = free_print separated_state;
            x_match = test_move_print_winner x_moves;
            o_match = test_move_print_winner o_moves
        in if x_match \<noteq> 0 \<or> o_match \<noteq> 0
           then (game_starter,
                 state\<lparr>endgame := (if x_match \<noteq> 0 then X_VICTORY else O_VICTORY)\<rparr>)
           else if moves state < 6 then (game_starter, state)
           else
             let is_x_starter = (game_starter = X_ACTOR);
                 is_o_starter = (game_starter = O_ACTOR);
                 x_min_moves = calc_min_moves is_x_starter (moves state);
                 o_min_moves = calc_min_moves is_o_starter (moves state);
                 free_moves_len = unat (move_print_count free_moves);
                 free_moves_coords = coords_array 3 (move_print_coords free_moves)
             in if keep_game_running x_moves o_moves x_min_moves o_min_moves
                     (take free_moves_len free_moves_coords)
                then (game_starter, state)
                else (game_starter, state\<lparr>endgame := GAME_DRAW\<rparr>))"

text \<open>The state \<^verbatim>\<open>main\<close> builds for a match: everything zero but the turn, which is
  \<^verbatim>\<open>(rand() % 2) + 1\<close>, that is X or O.\<close>

definition new_game :: "Actor \<Rightarrow> GameState" where
  "new_game t = \<lparr>board = replicate 3 (replicate 3 FREE_MOVE), selection = vec2 0 0,
                 turn = t, moves = 0, endgame = RUNNING\<rparr>"

text \<open>The states of alternating play: a new game whose first turn is \<open>t\<close>, followed by
  any inputs.\<close>

inductive played :: "Actor \<Rightarrow> GameState \<Rightarrow> bool" where
  played_start: "t = X_ACTOR \<or> t = O_ACTOR \<Longrightarrow> played t (new_game t)"
| played_input: "played t s \<Longrightarrow> played t (snd (process_game_input inp s))"

text \<open>A continuation of play: the state after a list of further inputs.\<close>

definition continue_play :: "GameState \<Rightarrow> GameInput list \<Rightarrow> GameState" where
  "continue_play s inps = foldl (\<lambda>st inp. snd (process_game_input inp st)) s inps"

text \<open>Some side has one of the eight lines complete.\<close>

definition line_completed :: "GameState \<Rightarrow> bool" where
  "line_completed s \<longleftrightarrow>
     test_move_print_winner (x_print (get_move_print_triplet (board s))) \<noteq> 0 \<or>
     test_move_print_winner (o_print (get_move_print_triplet (board s))) \<noteq> 0"

section \<open>Rendering\<close>

text \<open>
  \<^verbatim>\<open>rand()\<close> is modelled by a tape of the values it will return, read from position 0;
  every call consumes one value.
\<close>

type_synonym RandTape = "nat \<Rightarrow> nat"

definition rand_val :: "RandTape \<Rightarrow> nat" where
  "rand_val rs = rs 0"

definition rand_next :: "RandTape \<Rightarrow> RandTape" where
  "rand_next rs = (\<lambda>n. rs (Suc n))"

text \<open>
  The rejection loop of \<^verbatim>\<open>game_board_fill_animation\<close>:
  \<^verbatim>\<open>do selection = rand() % missing_len; while (animated & (1 << selection));\<close>
  It does not return when the tape never offers a fresh index: the result is \<open>None\<close>.
\<close>

partial_function (option) fill_selection ::
    "nat \<Rightarrow> 8 word \<Rightarrow> RandTape \<Rightarrow> (nat \<times> RandTape) option" where
  "fill_selection missing_len animated rs =
     (let sel = rand_val rs mod missing_len
      in if (uint animated AND push_bit sel 1) \<noteq> 0
         then fill_selection missing_len animated (rand_next rs)
         else Some (sel, rand_next rs))"

text \<open>The \<^verbatim>\<open>for\<close> loop of \<^verbatim>\<open>game_board_fill_animation\<close>, \<open>k\<close> iterations to go. Output
  to the terminal and delays are left out.\<close>

fun fill_loop ::
    "nat \<Rightarrow> nat \<Rightarrow> Vec2 list \<Rightarrow> GameBoard \<Rightarrow> Actor \<Rightarrow> 8 word \<Rightarrow> RandTape
       \<Rightarrow> (GameBoard \<times> RandTape) option" where
  "fill_loop 0 missing_len missing_coords brd trn animated rs = Some (brd, rs)"
| "fill_loop (Suc k) missing_len missing_coords brd trn animated rs =
     (case fill_selection missing_len animated rs of
        None \<Rightarrow> None
      | Some (sel, rs') \<Rightarrow>
          fill_loop k missing_len missing_coords
            (set_game_board_cell brd (missing_coords ! sel) (actor_to_move trn))
            (opponent_actor trn)
            (animated OR push_bit sel 1) rs')"

definition game_board_fill_animation ::
    "GameBoard \<Rightarrow> Actor \<Rightarrow> MovePrint \<Rightarrow> RandTape \<Rightarrow> (GameBoard \<times> RandTape) option" where
  "game_board_fill_animation brd trn missing rs =
     (let missing_len = unat (move_print_count missing);
          missing_coords = coords_array 3 (move_print_coords missing)
      in fill_loop missing_len missing_len missing_coords brd trn 0 rs)"

text \<open>
  \<^verbatim>\<open>render_game\<close>, as far as the game state is concerned. \<^verbatim>\<open>render_game_board\<close> and
  \<^verbatim>\<open>animate_board_rendering\<close> only read the board they are given;
  \<^verbatim>\<open>game_board_fill_animation\<close> gets \<^verbatim>\<open>state->board\<close> itself (an array argument is a
  pointer) and writes to it.
\<close>

definition render_game :: "GameState \<Rightarrow> RandTape \<Rightarrow> (GameState \<times> RandTape) option" where
  "render_game state rs =
     (let separated_state = get_move_print_triplet (board state)
      in case endgame state of
           RUNNING \<Rightarrow> Some (state, rs)
         | GAME_DRAW \<Rightarrow>
             (case game_board_fill_animation (board state) (turn state)
                     (free_print separated_state) rs of
                None \<Rightarrow> None
              | Some (b, rs') \<Rightarrow> Some (state\<lparr>board := b\<rparr>, rs'))
         | X_VICTORY \<Rightarrow> Some (state, rs)
         | O_VICTORY \<Rightarrow> Some (state, rs))"

section \<open>The heuristic strategy\<close>

text \<open>
  \<^verbatim>\<open>struct AIBrain\<close>: \<open>view\<close> is the game state the brain's pointer refers to and
  \<open>goal\<close> the cell it wants to reach. The function pointer \<^verbatim>\<open>cortex\<close> is left out: the
  strategy is called directly.
\<close>

record AIBrain =
  view :: GameState
  goal :: Vec2

definition avarage_ai_is_line_potentially_useless :: "MovePrint \<Rightarrow> MovePrint \<Rightarrow> bool" where
  "avarage_ai_is_line_potentially_useless my_moves enemy_moves \<longleftrightarrow>
     (\<not> test_move_print_purity enemy_moves my_moves) \<or> move_print_count enemy_moves = 0"

definition avarage_ai_test_winner :: "MovePrint \<Rightarrow> MovePrint \<Rightarrow> bool" where
  "avarage_ai_test_winner testing opponent \<longleftrightarrow>
     move_print_count testing = 2 \<and> test_move_print_purity testing opponent"

definition avarage_ai_see_missing_moves :: "MovePrint \<Rightarrow> nat \<Rightarrow> MovePrint" where
  "avarage_ai_see_missing_moves my_moves match_print_i =
     my_moves XOR match_move_prints ! match_print_i"

text \<open>\<^verbatim>\<open>struct AvarageAIMoveOptions\<close>; \<open>opt_moves\<close> is the array \<^verbatim>\<open>moves[9]\<close>.\<close>

record AvarageAIMoveOptions =
  len :: nat
  opt_moves :: "Vec2 list"
  stored_moves :: MovePrint

text \<open>The initialiser \<^verbatim>\<open>{0}\<close>.\<close>

definition no_options :: AvarageAIMoveOptions where
  "no_options = \<lparr>len = 0, opt_moves = replicate 9 (vec2 0 0), stored_moves = 0\<rparr>"

definition avarage_ai_move_options_push ::
    "AvarageAIMoveOptions \<Rightarrow> Vec2 \<Rightarrow> AvarageAIMoveOptions" where
  "avarage_ai_move_options_push opts move =
     (if \<not> move_print_inspec (stored_moves opts) move
      then opts\<lparr>stored_moves := edit_move_print (stored_moves opts) move True,
                opt_moves := (opt_moves opts)[len opts := move],
                len := len opts + 1\<rparr>
      else opts)"

text \<open>\<^verbatim>\<open>avarage_ai_move_options_pick\<close> calls \<^verbatim>\<open>rand()\<close> only when there are at least two
  options.\<close>

definition avarage_ai_move_options_pick ::
    "AvarageAIMoveOptions \<Rightarrow> RandTape \<Rightarrow> Vec2 \<times> RandTape" where
  "avarage_ai_move_options_pick opts rs =
     (if len opts = 0 then (vec2 (-1) (-1), rs)
      else if len opts = 1 then (opt_moves opts ! 0, rs)
      else (opt_moves opts ! (rand_val rs mod len opts), rand_next rs))"

text \<open>The three pools of \<^verbatim>\<open>avarage_ai_cortex\<close>.\<close>

record CortexPools =
  danger_cells :: AvarageAIMoveOptions
  avarage_moves :: AvarageAIMoveOptions
  potentially_useless :: AvarageAIMoveOptions

text \<open>
  \<^verbatim>\<open>move_print_coords(missing_move, &brain->goal)\<close> writes the coordinates over the goal,
  starting at the goal itself: with one set bit the goal is replaced, with none it stays.
\<close>

definition coords_over :: "Vec2 \<Rightarrow> Vec2 list \<Rightarrow> Vec2" where
  "coords_over old cs = (case cs of [] \<Rightarrow> old | c # _ \<Rightarrow> c)"

text \<open>
  One iteration of the loop over the eight lines: \<open>Inl\<close> is the \<^verbatim>\<open>return\<close> with the
  finishing move as goal, \<open>Inr\<close> the pools after the iteration (both \<^verbatim>\<open>continue\<close>
  statements and the fall-through).
\<close>

definition cortex_line ::
    "MovePrint \<Rightarrow> MovePrint \<Rightarrow> Vec2 \<Rightarrow> nat \<Rightarrow> CortexPools \<Rightarrow> Vec2 + CortexPools" where
  "cortex_line all_my_moves all_enemy_moves old_goal i pools =
     (let my_moves = all_my_moves AND match_move_prints ! i;
          enemy_moves = all_enemy_moves AND match_move_prints ! i;
          will_i_win = avarage_ai_test_winner my_moves enemy_moves
      in if will_i_win
         then Inl (coords_over old_goal
                     (move_print_coords (avarage_ai_see_missing_moves my_moves i)))
         else if avarage_ai_is_line_potentially_useless my_moves enemy_moves
         then
           (let mvs = avarage_ai_see_missing_moves my_moves i;
                move_count = unat (move_print_count mvs);
                move_coords = coords_array 3 (move_print_coords mvs)
            in Inr (pools\<lparr>potentially_useless :=
                      fold (\<lambda>c opts. avarage_ai_move_options_push opts c)
                        (take move_count move_coords) (potentially_useless pools)\<rparr>))
         else if avarage_ai_test_winner enemy_moves my_moves
         then
           (let missing_move = avarage_ai_see_missing_moves enemy_moves i;
                danger_cell = coords_over (vec2 0 0) (move_print_coords missing_move)
            in Inr (pools\<lparr>danger_cells :=
                      avarage_ai_move_options_push (danger_cells pools) danger_cell\<rparr>))
         else
           (let available_moves = avarage_ai_see_missing_moves enemy_moves i;
                available_moves_coords = coords_array 2 (move_print_coords available_moves)
            in Inr (pools\<lparr>avarage_moves :=
                      avarage_ai_move_options_push
                        (avarage_ai_move_options_push (avarage_moves pools)
                           (available_moves_coords ! 0))
                        (available_moves_coords ! 1)\<rparr>)))"

fun cortex_loop ::
    "MovePrint \<Rightarrow> MovePrint \<Rightarrow> Vec2 \<Rightarrow> nat list \<Rightarrow> CortexPools \<Rightarrow> Vec2 + CortexPools" where
  "cortex_loop all_my_moves all_enemy_moves old_goal [] pools = Inr pools"
| "cortex_loop all_my_moves all_enemy_moves old_goal (i # is) pools =
     (case cortex_line all_my_moves all_enemy_moves old_goal i pools of
        Inl g \<Rightarrow> Inl g
      | Inr pools' \<Rightarrow> cortex_loop all_my_moves all_enemy_moves old_goal is pools')"

text \<open>
  \<^verbatim>\<open>avarage_ai_cortex\<close>. In \<^verbatim>\<open>vec2(rand() % 3, rand() % 3)\<close> C leaves open which of the
  two calls runs first; the model gives the first value of the tape to \<open>x\<close>.
\<close>

definition avarage_ai_cortex :: "AIBrain \<Rightarrow> RandTape \<Rightarrow> AIBrain \<times> RandTape" where
  "avarage_ai_cortex brain rs =
     (let should_i_start = (moves (view brain) = 0)
      in if should_i_start
         then (brain\<lparr>goal := vec2 (int (rand_val rs mod 3)) (int (rand_val (rand_next rs) mod 3))\<rparr>,
               rand_next (rand_next rs))
         else
           let me = turn (view brain);
               enemy = opponent_actor (turn (view brain));
               move_view = get_move_print_triplet (board (view brain));
               all_my_moves = (if me = X_ACTOR then x_print move_view else o_print move_view);
               all_enemy_moves = (if enemy = X_ACTOR then x_print move_view else o_print move_view)
           in case cortex_loop all_my_moves all_enemy_moves (goal brain) [0..<8]
                     \<lparr>danger_cells = no_options, avarage_moves = no_options,
                      potentially_useless = no_options\<rparr> of
                Inl g \<Rightarrow> (brain\<lparr>goal := g\<rparr>, rs)
              | Inr pools \<Rightarrow>
                  (let am_i_in_danger = (len (danger_cells pools) > 0);
                       do_i_have_good_moves = (len (avarage_moves pools) > 0);
                       pick =
                         (if am_i_in_danger
                          then avarage_ai_move_options_pick (danger_cells pools) rs
                          else if do_i_have_good_moves
                          then avarage_ai_move_options_pick (avarage_moves pools) rs
                          else avarage_ai_move_options_pick (potentially_useless pools) rs)
                   in (brain\<lparr>goal := fst pick\<rparr>, snd pick)))"

section \<open>Well-formed boards and positions\<close>

text \<open>A board has three rows of three cells; a position on it has both coordinates in
  \<open>0 .. 2\<close>.\<close>

definition wf_board :: "GameBoard \<Rightarrow> bool" where
  "wf_board b \<longleftrightarrow> length b = 3 \<and> list_all (\<lambda>r. length r = 3) b"

definition in_board :: "Vec2 \<Rightarrow> bool" where
  "in_board pos \<longleftrightarrow> 0 \<le> vec_x pos \<and> vec_x pos < 3 \<and> 0 \<le> vec_y pos \<and> vec_y pos < 3"

text \<open>The cell with bit index \<open>i\<close>, that is \<open>3 * row + column\<close>.\<close>

definition cell_at :: "GameBoard \<Rightarrow> nat \<Rightarrow> Move" where
  "cell_at b i = game_board_cell b (vec2 (int i mod 3) (int i div 3))"

section \<open>Win detection: properties\<close>

lemma upt_8: "[0..<8] = [0, 1, 2, 3, 4, 5, 6, 7]"
  by (simp add: upt_conv_Cons)

lemma upt_9: "[0..<9] = [0, 1, 2, 3, 4, 5, 6, 7, 8]"
  by (simp add: upt_conv_Cons)

lemma test_move_print_winner_unfold:
  "test_move_print_winner m =
     test_move_print_winner_line m 0 OR test_move_print_winner_line m 1 OR
     test_move_print_winner_line m 2 OR test_move_print_winner_line m 3 OR
     test_move_print_winner_line m 4 OR test_move_print_winner_line m 5 OR
     test_move_print_winner_line m 6 OR test_move_print_winner_line m 7"
  by (simp add: test_move_print_winner_def upt_8 ac_simps)

lemma match_nth:
  "match_move_prints ! 0 = 7" "match_move_prints ! 1 = 56" "match_move_prints ! 2 = 448"
  "match_move_prints ! 3 = 73" "match_move_prints ! 4 = 146" "match_move_prints ! 5 = 292"
  "match_move_prints ! 6 = 273" "match_move_prints ! 7 = 84"
  by (simp_all add: match_move_prints_def)

lemma foldr_or_filter:
  "foldr (OR) (filter P xs) (0 :: MovePrint) = foldr (\<lambda>p r. (if P p then p else 0) OR r) xs 0"
  by (induction xs) simp_all

lemma winner_eq_spec: "test_move_print_winner m = winningLines_spec m"
  unfolding winningLines_spec_def contained_patterns_def foldr_or_filter
    test_move_print_winner_unfold test_move_print_winner_line_def match_nth
  by (simp add: match_move_prints_def ac_simps)

lemma winner_nonzero_iff:
  "test_move_print_winner m \<noteq> 0 \<longleftrightarrow> (\<exists>p \<in> set match_move_prints. m AND p = p)"
  unfolding test_move_print_winner_unfold test_move_print_winner_line_def match_nth
  by (simp add: match_move_prints_def or_eq_0_iff)

lemma winner_of_patterns:
  "test_move_print_winner 7 = 7" "test_move_print_winner 56 = 56"
  "test_move_print_winner 448 = 448" "test_move_print_winner 73 = 73"
  "test_move_print_winner 146 = 146" "test_move_print_winner 292 = 292"
  "test_move_print_winner 273 = 273" "test_move_print_winner 84 = 84"
  unfolding test_move_print_winner_unfold test_move_print_winner_line_def match_nth
  by simp_all

lemma winner_pattern: "p \<in> set match_move_prints \<Longrightarrow> test_move_print_winner p = p"
  using winner_of_patterns by (auto simp add: match_move_prints_def)

text \<open>
  C3. For every mask, \<^verbatim>\<open>test_move_print_winner\<close> returns the bitwise OR of exactly the
  winning patterns that are fully contained in the mask; the result is non-zero iff some
  pattern is contained in the mask; and applied to one of the eight patterns alone it
  returns that pattern unchanged.
\<close>

theorem test_move_print_winner_correct:
  "test_move_print_winner m = winningLines_spec m \<and>
   (test_move_print_winner m \<noteq> 0 \<longleftrightarrow> (\<exists>p \<in> set match_move_prints. m AND p = p)) \<and>
   (\<forall>p \<in> set match_move_prints. test_move_print_winner p = p)"
  using winner_eq_spec winner_nonzero_iff winner_pattern by blast

theorem test_move_print_winner_correct_witness:
  "test_move_print_winner 23 = 7 \<and> winningLines_spec 23 = 7 \<and>
   7 \<in> set match_move_prints \<and> (23 :: MovePrint) AND 7 = 7 \<and>
   273 \<in> set match_move_prints \<and> test_move_print_winner 273 = 273"
  using test_move_print_winner_correct [of 23]
  by (simp add: winningLines_spec_def contained_patterns_def match_move_prints_def)

section \<open>Minimum-moves arithmetic\<close>

text \<open>
  C4. The draw detector runs only when the moves counter is at least 6. For every such
  value of the counter, \<^verbatim>\<open>calc_min_moves\<close> yields, without wrap-around,
  \<open>3 - (5 - (moves - moves / 2))\<close> for the starting side and \<open>3 - (4 - moves / 2)\<close> for
  the other side, in integer arithmetic.
\<close>

theorem calc_min_moves_formula:
  "6 \<le> mv \<Longrightarrow>
     uint (calc_min_moves True mv) = 3 - (5 - (uint mv - uint mv div 2)) \<and>
     uint (calc_min_moves False mv) = 3 - (4 - uint mv div 2)"
proof -
  assume a: "6 \<le> mv"
  have lo: "6 \<le> uint mv" using a by (simp add: word_le_def)
  have hi: "uint mv < 256" using uint_lt2p [of mv] by simp
  have red: "uint (word_of_int (3 - uint (word_of_int k :: 8 word)) :: 8 word) = (3 - k) mod 256"
    for k
  proof -
    have "(word_of_int (3 - uint (word_of_int k :: 8 word)) :: 8 word) = word_of_int (3 - k)"
      by simp
    then show ?thesis by (simp only: uint_word_of_int) simp
  qed
  have t: "(3 - (5 - (uint mv - uint mv div 2))) mod 256 = 3 - (5 - (uint mv - uint mv div 2))"
    using lo hi by (intro mod_pos_pos_trivial) linarith+
  have f: "(3 - (4 - uint mv div 2)) mod 256 = 3 - (4 - uint mv div 2)"
    using lo hi by (intro mod_pos_pos_trivial) linarith+
  show ?thesis
    unfolding calc_min_moves_def Let_def using t f by (simp only: red if_True if_False)
qed

theorem calc_min_moves_formula_witness:
  "(6 :: 8 word) \<le> 7 \<and> uint (calc_min_moves True 7) = 2 \<and> uint (calc_min_moves False 7) = 2"
  using calc_min_moves_formula [of 7] by simp

end
